theory Spec2Isabelle
  imports Main
begin

section \<open>Strings\<close>

text \<open>
  A Python \<^verbatim>\<open>str\<close> is a sequence of Unicode code points and \<^verbatim>\<open>len\<close> counts code
  points, so a string is modelled as the list of its code points. \<open>ustr\<close> reads an
  ASCII literal.
\<close>

type_synonym ustring = "nat list"

definition ustr :: "string \<Rightarrow> ustring" where
  "ustr s = map of_char s"

text \<open>
  \<^verbatim>\<open>str.isspace\<close>, \<^verbatim>\<open>str.strip()\<close> and the pattern \<^verbatim>\<open>\s\<close> of module \<^verbatim>\<open>re\<close> agree on what
  whitespace is: the code points below (CPython's table).
\<close>

definition isspace :: "nat \<Rightarrow> bool" where
  "isspace c \<longleftrightarrow>
     (9 \<le> c \<and> c \<le> 13) \<or> (28 \<le> c \<and> c \<le> 32) \<or> c = 133 \<or> c = 160 \<or> c = 5760 \<or>
     (8192 \<le> c \<and> c \<le> 8202) \<or> c = 8232 \<or> c = 8233 \<or> c = 8239 \<or> c = 8287 \<or> c = 12288"

definition py_lstrip :: "ustring \<Rightarrow> ustring" where
  "py_lstrip s = dropWhile isspace s"

definition py_rstrip :: "ustring \<Rightarrow> ustring" where
  "py_rstrip s = rev (dropWhile isspace (rev s))"

definition py_strip :: "ustring \<Rightarrow> ustring" where
  "py_strip s = py_rstrip (py_lstrip s)"

text \<open>\<^verbatim>\<open>s.rstrip(chars)\<close>: drop every trailing character that occurs in \<open>chars\<close>.\<close>

definition rstrip_chars :: "ustring \<Rightarrow> ustring \<Rightarrow> ustring" where
  "rstrip_chars chars s = rev (dropWhile (\<lambda>c. c \<in> set chars) (rev s))"

text \<open>
  \<^verbatim>\<open>re.sub\<close> with a pattern \<^verbatim>\<open>X+\<close> for a character class \<open>X\<close>: every maximal run of
  characters of the class is replaced by \<open>r\<close>.
\<close>

function sub_runs :: "(nat \<Rightarrow> bool) \<Rightarrow> ustring \<Rightarrow> ustring \<Rightarrow> ustring" where
  "sub_runs P r [] = []"
| "sub_runs P r (c # cs) =
     (if P c then r @ sub_runs P r (dropWhile P cs) else c # sub_runs P r cs)"
  by pat_completeness auto
termination
  by (relation "measure (\<lambda>(P, r, s). length s)")
     (auto simp: length_dropWhile_le less_Suc_eq_le)

text \<open>\<^verbatim>\<open>WS_RE = re.compile(r"\s+")\<close>\<close>

definition WS_RE_sub :: "ustring \<Rightarrow> ustring \<Rightarrow> ustring" where
  "WS_RE_sub r s = sub_runs isspace r s"

text \<open>\<^verbatim>\<open>re.sub(r"_+", "_", s)\<close>\<close>

definition collapse_underscores :: "ustring \<Rightarrow> ustring" where
  "collapse_underscores s = sub_runs (\<lambda>c. c = 95) [95] s"

text \<open>
  \<^verbatim>\<open>INVALID_WIN_RE = re.compile(r'[<>:"/\\|?*\u0000-\u001F]')\<close>: the nine punctuation
  characters and the control characters U+0000 to U+001F. The pattern has no \<^verbatim>\<open>+\<close>:
  every single match is replaced. The code points 60, 62, 58, 34, 47, 92, 124, 63, 42
  are the characters of the class in the order the pattern lists them.
\<close>

definition invalid_win :: "nat \<Rightarrow> bool" where
  "invalid_win c \<longleftrightarrow> c \<in> set [60, 62, 58, 34, 47, 92, 124, 63, 42] \<or> c \<le> 31"

definition INVALID_WIN_RE_sub :: "ustring \<Rightarrow> ustring \<Rightarrow> ustring" where
  "INVALID_WIN_RE_sub r s = concat (map (\<lambda>c. if invalid_win c then r else [c]) s)"

text \<open>
  \<^verbatim>\<open>WIN_RESERVED\<close>: CON, PRN, AUX, NUL, COM1 to COM9, LPT1 to LPT9.
\<close>

definition WIN_RESERVED :: "ustring list" where
  "WIN_RESERVED =
     [ustr ''CON'', ustr ''PRN'', ustr ''AUX'', ustr ''NUL''] @
     map (\<lambda>i. ustr ''COM'' @ [48 + i]) [1..<10] @
     map (\<lambda>i. ustr ''LPT'' @ [48 + i]) [1..<10]"

text \<open>
  \<^verbatim>\<open>str.upper\<close> is used by the source only in \<^verbatim>\<open>s.upper() in WIN_RESERVED\<close>. On ASCII it
  maps a to z onto A to Z and nothing else. Outside ASCII the upper case of a code point
  always holds a character that is neither one of the letters nor one of the digits of
  a reserved name, so the model, which leaves such a code point alone, decides the
  membership test as Python does.
\<close>

definition upper_cp :: "nat \<Rightarrow> nat" where
  "upper_cp c = (if 97 \<le> c \<and> c \<le> 122 then c - 32 else c)"

definition py_upper :: "ustring \<Rightarrow> ustring" where
  "py_upper s = map upper_cp s"

text \<open>
  The slice \<^verbatim>\<open>s[:n]\<close>: the first \<open>n\<close> characters, and for a negative \<open>n\<close> all but the
  last \<open>-n\<close>.
\<close>

definition slice_to :: "int \<Rightarrow> ustring \<Rightarrow> ustring" where
  "slice_to n s = (if 0 \<le> n then take (nat n) s else take (length s - nat (- n)) s)"

section \<open>Filename helpers\<close>

definition untitled :: ustring where
  "untitled = ustr ''untitled''"

text \<open>
  \<^verbatim>\<open>safe_filename_base(s, *, max_len=180, preserve_blanks=False)\<close>. The locals \<open>s1\<close> to
  \<open>s7\<close> are the successive values of the variable \<^verbatim>\<open>s\<close> of the source. \<open>sanitize_core\<close>
  is the function up to the length cap.
\<close>

definition sanitize_core :: "ustring \<Rightarrow> bool \<Rightarrow> ustring" where
  "sanitize_core s preserve_blanks =
     (let s1 = py_strip s;
          s2 = (if preserve_blanks then WS_RE_sub (ustr '' '') s1
                else collapse_underscores (WS_RE_sub (ustr ''_'') s1));
          s3 = (if s2 = [] then untitled else s2);
          s4 = INVALID_WIN_RE_sub (ustr ''_'') s3;
          s5 = rstrip_chars (ustr '' .'') s4
      in if py_upper s5 \<in> set WIN_RESERVED then ustr ''_'' @ s5 @ ustr ''_'' else s5)"

definition safe_filename_base :: "ustring \<Rightarrow> int \<Rightarrow> bool \<Rightarrow> ustring" where
  "safe_filename_base s max_len preserve_blanks =
     (let s6 = sanitize_core s preserve_blanks;
          s7 = (if int (length s6) > max_len
                then rstrip_chars (ustr '' .'') (slice_to max_len s6) else s6)
      in if s7 = [] then untitled else s7)"

section \<open>Comment helper\<close>

text \<open>
  \<^verbatim>\<open>str.casefold\<close> is a table of the Unicode library. \<open>build_comment\<close> only compares
  case-folded names, so the table is a parameter \<open>cf\<close> of the model.
\<close>

text \<open>
  The loop of \<^verbatim>\<open>build_comment\<close> over \<^verbatim>\<open>cols_raw\<close>, with its two accumulators \<^verbatim>\<open>cols\<close> and
  \<^verbatim>\<open>seen\<close>. A collaborator entry is a string; the empty string is the falsy entry.
\<close>

fun collect_cols ::
  "(ustring \<Rightarrow> ustring) \<Rightarrow> ustring \<Rightarrow> ustring list \<Rightarrow> ustring list \<Rightarrow> ustring set \<Rightarrow> ustring list"
where
  "collect_cols cf user_norm [] cols seen = cols"
| "collect_cols cf user_norm (c # rest) cols seen =
     (if c = [] then collect_cols cf user_norm rest cols seen
      else let c_clean = py_strip c in
        if c_clean = [] then collect_cols cf user_norm rest cols seen
        else let c_norm = cf c_clean in
          if user_norm \<noteq> [] \<and> c_norm = user_norm then collect_cols cf user_norm rest cols seen
          else if c_norm \<in> seen then collect_cols cf user_norm rest cols seen
          else collect_cols cf user_norm rest (cols @ [c_clean]) (insert c_norm seen))"

text \<open>\<^verbatim>\<open>sep.join(xs)\<close>\<close>

fun py_join :: "ustring \<Rightarrow> ustring list \<Rightarrow> ustring" where
  "py_join sep [] = []"
| "py_join sep [x] = x"
| "py_join sep (x # y # ys) = x @ sep @ py_join sep (y # ys)"

definition collab_tail :: "ustring list \<Rightarrow> ustring" where
  "collab_tail cols = ustr ''Collaborators:'' @ [10] @ py_join [10] cols"

text \<open>
  \<^verbatim>\<open>build_comment(description, collaborators, username)\<close>; \<open>None\<close> is the Python \<^verbatim>\<open>None\<close>
  of the three optional arguments.
\<close>

definition build_comment ::
  "(ustring \<Rightarrow> ustring) \<Rightarrow> ustring option \<Rightarrow> ustring list option \<Rightarrow> ustring option \<Rightarrow> ustring"
where
  "build_comment cf description collaborators username =
     (let desc = py_rstrip (case description of None \<Rightarrow> [] | Some d \<Rightarrow> d);
          user_norm = cf (py_strip (case username of None \<Rightarrow> [] | Some u \<Rightarrow> u));
          cols_raw = (case collaborators of None \<Rightarrow> [] | Some cs \<Rightarrow> cs);
          cols = collect_cols cf user_norm cols_raw [] {}
      in if cols = [] then desc
         else let tail = collab_tail cols
              in if desc \<noteq> [] then desc @ [10, 10] @ tail else tail)"

text \<open>
  The collaborator names that remain, as the specification words them: each entry
  trimmed, empty entries dropped, the uploader's own name excluded without regard to
  case, and of several names equal without regard to case only the first kept.
\<close>

fun dedup_by :: "('a \<Rightarrow> 'b) \<Rightarrow> 'a list \<Rightarrow> 'a list" where
  "dedup_by f [] = []"
| "dedup_by f (x # xs) = x # dedup_by f (filter (\<lambda>y. f y \<noteq> f x) xs)"

definition spec_remaining_names ::
  "(ustring \<Rightarrow> ustring) \<Rightarrow> ustring list \<Rightarrow> ustring \<Rightarrow> ustring list"
where
  "spec_remaining_names cf collaborators username =
     dedup_by cf
       (filter (\<lambda>c. \<not> (cf (py_strip username) \<noteq> [] \<and> cf c = cf (py_strip username)))
         (filter (\<lambda>c. c \<noteq> []) (map py_strip collaborators)))"

section \<open>Paths\<close>

text \<open>
  A \<^verbatim>\<open>pathlib.Path\<close> is modelled as the list of its components from the root. The
  operator \<^verbatim>\<open>folder / name\<close> appends one component: a short id, an attachment name and
  the names the planner builds are taken to be single components (no separator, not
  \<^verbatim>\<open>.\<close> or \<^verbatim>\<open>..\<close>).
\<close>

type_synonym path = "ustring list"

definition path_name :: "path \<Rightarrow> ustring" where
  "path_name p = (if p = [] then [] else last p)"

definition path_parent :: "path \<Rightarrow> path" where
  "path_parent p = butlast p"

definition path_join :: "path \<Rightarrow> ustring \<Rightarrow> path" where
  "path_join p n = p @ [n]"

definition with_name :: "path \<Rightarrow> ustring \<Rightarrow> path" where
  "with_name p n = butlast p @ [n]"

text \<open>
  \<^verbatim>\<open>suffix\<close> and \<^verbatim>\<open>stem\<close> of pathlib: with \<open>i\<close> the index of the last dot of the name, the
  suffix is \<^verbatim>\<open>name[i:]\<close> and the stem \<^verbatim>\<open>name[:i]\<close> when \<^verbatim>\<open>0 < i < len(name) - 1\<close>; otherwise
  the suffix is empty and the stem is the name. \<open>k\<close> counts the characters after the
  last dot.
\<close>

definition dot_index :: "ustring \<Rightarrow> nat option" where
  "dot_index n =
     (let k = length (takeWhile (\<lambda>c. c \<noteq> 46) (rev n))
      in if 46 \<in> set n \<and> 0 < k \<and> k + 1 < length n then Some (length n - (k + 1)) else None)"

definition name_suffix :: "ustring \<Rightarrow> ustring" where
  "name_suffix n = (case dot_index n of None \<Rightarrow> [] | Some i \<Rightarrow> drop i n)"

definition name_stem :: "ustring \<Rightarrow> ustring" where
  "name_stem n = (case dot_index n of None \<Rightarrow> n | Some i \<Rightarrow> take i n)"

definition path_suffix :: "path \<Rightarrow> ustring" where
  "path_suffix p = name_suffix (path_name p)"

definition path_stem :: "path \<Rightarrow> ustring" where
  "path_stem p = name_stem (path_name p)"

section \<open>Rename operations and the filesystem\<close>

datatype op_kind = Audio | Cover | Attachment

datatype keep = KeepNone | KeepLink | KeepCopy

text \<open>The dataclass \<^verbatim>\<open>RenameOp\<close>.\<close>

record rename_op =
  kind :: op_kind
  short_id :: ustring
  title :: ustring
  src :: path
  dst :: path
  keep_mode :: keep

text \<open>
  A file is the list of its lines. \<open>Rec r\<close> is the line \<^verbatim>\<open>json.dumps(r.to_json())\<close> that
  \<^verbatim>\<open>json.loads\<close> reads back as the record \<open>r\<close>; \<open>Raw\<close> is any other content: the bytes
  of a media file, or a blank or corrupt line of a journal.
\<close>

datatype line = Raw "nat list" | Rec rename_op

datatype node = File "line list" | Dir | Symlink path

text \<open>
  The filesystem is the association list of the paths that are present; the root is
  always a directory. Only the last component of a path can be a symbolic link.
\<close>

type_synonym fs = "(path \<times> node) list"

definition lookup :: "fs \<Rightarrow> path \<Rightarrow> node option" where
  "lookup fs p = (if p = [] then Some Dir else map_of fs p)"

definition fs_remove :: "fs \<Rightarrow> path \<Rightarrow> fs" where
  "fs_remove fs p = filter (\<lambda>e. fst e \<noteq> p) fs"

definition fs_put :: "fs \<Rightarrow> path \<Rightarrow> node \<Rightarrow> fs" where
  "fs_put fs p n = (p, n) # fs_remove fs p"

text \<open>
  Following symbolic links: a chain of links without a cycle is at most as long as the
  filesystem has entries, so running out of steps is the error of a cycle of links.
\<close>

fun follow :: "fs \<Rightarrow> nat \<Rightarrow> path \<Rightarrow> path option" where
  "follow fs 0 p = None"
| "follow fs (Suc n) p =
     (case lookup fs p of Some (Symlink t) \<Rightarrow> follow fs n t | _ \<Rightarrow> Some p)"

definition resolve :: "fs \<Rightarrow> path \<Rightarrow> path option" where
  "resolve fs p = follow fs (Suc (length fs)) p"

definition stat :: "fs \<Rightarrow> path \<Rightarrow> node option" where
  "stat fs p = (case resolve fs p of None \<Rightarrow> None | Some q \<Rightarrow> lookup fs q)"

text \<open>\<^verbatim>\<open>Path.exists\<close>, \<^verbatim>\<open>is_dir\<close> and \<^verbatim>\<open>is_file\<close> follow links; \<^verbatim>\<open>is_symlink\<close> does not.\<close>

definition path_exists :: "fs \<Rightarrow> path \<Rightarrow> bool" where
  "path_exists fs p = (stat fs p \<noteq> None)"

definition is_dir :: "fs \<Rightarrow> path \<Rightarrow> bool" where
  "is_dir fs p = (stat fs p = Some Dir)"

definition is_file :: "fs \<Rightarrow> path \<Rightarrow> bool" where
  "is_file fs p = (case stat fs p of Some (File c) \<Rightarrow> True | _ \<Rightarrow> False)"

definition is_symlink :: "fs \<Rightarrow> path \<Rightarrow> bool" where
  "is_symlink fs p = (case lookup fs p of Some (Symlink t) \<Rightarrow> True | _ \<Rightarrow> False)"

text \<open>\<^verbatim>\<open>folder.iterdir()\<close>: the entries of the folder, in the order the filesystem has them.\<close>

definition iterdir :: "fs \<Rightarrow> path \<Rightarrow> path list" where
  "iterdir fs folder = filter (\<lambda>q. q \<noteq> [] \<and> butlast q = folder) (remdups (map fst fs))"

section \<open>Collision avoidance\<close>

text \<open>\<^verbatim>\<open>str(i)\<close> of a natural number: its decimal digits.\<close>

function str_nat :: "nat \<Rightarrow> ustring" where
  "str_nat n = (if n < 10 then [48 + n] else str_nat (n div 10) @ [48 + n mod 10])"
  by pat_completeness auto
termination
  by (relation "measure (\<lambda>n. n)") auto

declare str_nat.simps [simp del]

text \<open>The candidate \<^verbatim>\<open>p.with_name(f"{stem}__{i}{suf}")\<close> of \<^verbatim>\<open>unique_path\<close>.\<close>

definition candidate :: "path \<Rightarrow> ustring \<Rightarrow> ustring \<Rightarrow> nat \<Rightarrow> path" where
  "candidate p stem suf i = with_name p (stem @ ustr ''__'' @ str_nat i @ suf)"

lemma str_nat_not_Nil: "str_nat n \<noteq> []"
  by (subst str_nat.simps) simp

lemma str_nat_inj: "str_nat m = str_nat n \<Longrightarrow> m = n"
proof (induction m arbitrary: n rule: str_nat.induct)
  case (1 m)
  show ?case
  proof (cases "m < 10")
    case True
    with "1.prems" have a: "[48 + m] = str_nat n" by (subst (asm) str_nat.simps) simp
    show ?thesis
    proof (cases "n < 10")
      case True
      with a show ?thesis by (subst (asm) str_nat.simps) simp
    next
      case False
      with a have "[48 + m] = str_nat (n div 10) @ [48 + n mod 10]"
        by (subst (asm) str_nat.simps) simp
      then have "str_nat (n div 10) = []" by (simp add: Cons_eq_append_conv)
      then show ?thesis by (simp add: str_nat_not_Nil)
    qed
  next
    case False
    with "1.prems" have a: "str_nat (m div 10) @ [48 + m mod 10] = str_nat n"
      by (subst (asm) str_nat.simps) simp
    show ?thesis
    proof (cases "n < 10")
      case True
      with a have "str_nat (m div 10) @ [48 + m mod 10] = [48 + n]"
        by (subst (asm) (2) str_nat.simps) simp
      then have "str_nat (m div 10) = []" by (simp add: append_eq_Cons_conv)
      then show ?thesis by (simp add: str_nat_not_Nil)
    next
      case False
      with a have "str_nat (m div 10) @ [48 + m mod 10] = str_nat (n div 10) @ [48 + n mod 10]"
        by (subst (asm) (2) str_nat.simps) simp
      then have b: "str_nat (m div 10) = str_nat (n div 10)" and c: "m mod 10 = n mod 10"
        by simp_all
      from "1.IH" [OF \<open>\<not> m < 10\<close> b] have "m div 10 = n div 10" .
      with c show ?thesis by (metis div_mult_mod_eq)
    qed
  qed
qed

lemma candidate_inj: "candidate p stem suf i = candidate p stem suf j \<Longrightarrow> i = j"
  by (auto simp: candidate_def with_name_def dest: str_nat_inj)

lemma path_exists_lookup: "path_exists fs p \<Longrightarrow> lookup fs p \<noteq> None"
  by (auto simp: path_exists_def stat_def resolve_def split: option.splits node.splits)

lemma path_exists_entry: "path_exists fs p \<Longrightarrow> p = [] \<or> p \<in> fst ` set fs"
proof -
  assume "path_exists fs p"
  then have "lookup fs p \<noteq> None" by (rule path_exists_lookup)
  then show ?thesis
    by (cases "p = []") (auto simp: lookup_def map_of_eq_None_iff)
qed

lemma finite_existing_candidates: "finite {j. path_exists fs (candidate p stem suf j)}"
proof -
  have "{j. path_exists fs (candidate p stem suf j)}
          \<subseteq> candidate p stem suf -` (insert [] (fst ` set fs))"
    using path_exists_entry by auto
  moreover have "finite (candidate p stem suf -` (insert [] (fst ` set fs)))"
    by (rule finite_vimageI) (auto intro!: injI dest: candidate_inj)
  ultimately show ?thesis by (rule finite_subset)
qed

text \<open>
  The probing loop of \<^verbatim>\<open>unique_path\<close>. It ends because only finitely many candidates
  can exist.
\<close>

function unique_loop :: "fs \<Rightarrow> path \<Rightarrow> ustring \<Rightarrow> ustring \<Rightarrow> nat \<Rightarrow> path" where
  "unique_loop fs p stem suf i =
     (if \<not> path_exists fs (candidate p stem suf i) then candidate p stem suf i
      else unique_loop fs p stem suf (i + 1))"
  by pat_completeness auto
termination
proof (relation "measure (\<lambda>(fs, p, stem, suf, i).
          card {j. i \<le> j \<and> path_exists fs (candidate p stem suf j)})", goal_cases)
  case 1
  show ?case by simp
next
  case (2 fs p stem suf i)
  let ?A = "\<lambda>i. {j. i \<le> j \<and> path_exists fs (candidate p stem suf j)}"
  have fin: "finite (?A i)"
    by (rule finite_subset [OF _ finite_existing_candidates [of fs p stem suf]]) auto
  have "i \<in> ?A i" and "i \<notin> ?A (i + 1)"
    using 2 by simp_all
  moreover have "?A (i + 1) \<subseteq> ?A i"
    by auto
  ultimately have "?A (i + 1) \<subset> ?A i"
    by blast
  then have "card (?A (i + 1)) < card (?A i)"
    using fin by (rule psubset_card_mono [rotated])
  then show ?case by simp
qed

declare unique_loop.simps [simp del]

definition unique_path :: "fs \<Rightarrow> path \<Rightarrow> path" where
  "unique_path fs p =
     (if \<not> path_exists fs p then p
      else unique_loop fs p (path_stem p) (path_suffix p) 2)"

section \<open>Errors\<close>

text \<open>
  The exceptions the modelled code can raise. \<open>AttributeError a\<close> is the failed lookup of
  the attribute \<open>a\<close> of an object.
\<close>

datatype py_error =
    AttributeError string
  | FileNotFoundError path
  | FileExistsError path
  | NotADirectoryError path
  | IsADirectoryError path
  | PermissionError path
  | OSError path
  | RuntimeError
  | JSONDecodeError

text \<open>Sequencing: the first exception ends the computation.\<close>

definition and_then :: "py_error + 'a \<Rightarrow> ('a \<Rightarrow> py_error + 'b) \<Rightarrow> py_error + 'b" where
  "and_then m f = (case m of Inl e \<Rightarrow> Inl e | Inr x \<Rightarrow> f x)"

section \<open>Rename planner\<close>

text \<open>
  \<^verbatim>\<open>str.lower\<close> is used only to compare a stem with \<^verbatim>\<open>audio\<close> or \<^verbatim>\<open>cover\<close>. Outside ASCII
  the lower case of a code point always holds a character that is not a letter of these
  two words, so the ASCII table decides the comparison as Python does.
\<close>

definition lower_cp :: "nat \<Rightarrow> nat" where
  "lower_cp c = (if 65 \<le> c \<and> c \<le> 90 then c + 32 else c)"

definition py_lower :: "ustring \<Rightarrow> ustring" where
  "py_lower s = map lower_cp s"

text \<open>
  \<^verbatim>\<open>find_by_stem(folder, stem)\<close>; \<^verbatim>\<open>iterdir\<close> raises when the folder is missing or is not
  a directory.
\<close>

definition find_by_stem :: "fs \<Rightarrow> path \<Rightarrow> ustring \<Rightarrow> py_error + path option" where
  "find_by_stem fs folder stem =
     (if \<not> path_exists fs folder then Inl (FileNotFoundError folder)
      else if \<not> is_dir fs folder then Inl (NotADirectoryError folder)
      else Inr (find (\<lambda>p. is_file fs p \<and> py_lower (path_stem p) = py_lower stem)
                  (iterdir fs folder)))"

text \<open>
  A piece of the manifest, with the three keys the planner reads; \<open>None\<close> is a missing
  key or a JSON null.
\<close>

record piece =
  p_short_id :: "ustring option"
  p_title :: "ustring option"
  p_attachment :: "ustring option"

text \<open>The warnings of the planner, by kind and with the values their text shows.\<close>

datatype warning =
    NoShortId
  | FolderMissing ustring path
  | AudioNotFound ustring
  | CoverNotFound ustring
  | AttachmentMissing ustring ustring

text \<open>
  The search for a source file: the first candidate name that exists, and otherwise the
  search by stem.
\<close>

definition locate_src :: "fs \<Rightarrow> path \<Rightarrow> ustring list \<Rightarrow> ustring \<Rightarrow> py_error + path option" where
  "locate_src fs folder names stem =
     (case find (path_exists fs) (map (path_join folder) names) of
        Some cand \<Rightarrow> Inr (Some cand)
      | None \<Rightarrow> find_by_stem fs folder stem)"

text \<open>
  The guarded append that the planner does for each of the three assets:
  \<^verbatim>\<open>if src.name != dst.name and not dst.exists(): ops.append(RenameOp(..., unique_path(dst), keep_mode))\<close>
\<close>

definition plan_op ::
  "fs \<Rightarrow> op_kind \<Rightarrow> ustring \<Rightarrow> ustring \<Rightarrow> path \<Rightarrow> path \<Rightarrow> keep \<Rightarrow> rename_op list \<Rightarrow> rename_op list"
where
  "plan_op fs k sid ttl src_path dst_path km ops =
     (if path_name src_path \<noteq> path_name dst_path \<and> \<not> path_exists fs dst_path
      then ops @ [\<lparr>kind = k, short_id = sid, title = ttl, src = src_path,
                    dst = unique_path fs dst_path, keep_mode = km\<rparr>]
      else ops)"

text \<open>
  The three parts of the body of the loop of \<^verbatim>\<open>build_rename_ops\<close>: audio, cover and
  attachment. \<open>acc\<close> is the pair of the lists \<^verbatim>\<open>ops\<close> and \<^verbatim>\<open>warnings\<close>.
\<close>

definition plan_audio ::
  "fs \<Rightarrow> path \<Rightarrow> ustring \<Rightarrow> ustring \<Rightarrow> ustring \<Rightarrow> keep \<Rightarrow>
   rename_op list \<times> warning list \<Rightarrow> py_error + (rename_op list \<times> warning list)"
where
  "plan_audio fs folder sid ttl base km acc =
     and_then
       (locate_src fs folder
          [ustr ''audio.mp4'', ustr ''audio.m4a'', ustr ''audio.wav'', ustr ''audio.aac'']
          (ustr ''audio''))
       (\<lambda>audio_src. Inr
          (case audio_src of
             Some a \<Rightarrow>
               (plan_op fs Audio sid ttl a (path_join folder (base @ path_suffix a)) km (fst acc),
                snd acc)
           | None \<Rightarrow> (fst acc, snd acc @ [AudioNotFound sid])))"

definition plan_cover ::
  "fs \<Rightarrow> path \<Rightarrow> ustring \<Rightarrow> ustring \<Rightarrow> ustring \<Rightarrow> keep \<Rightarrow>
   rename_op list \<times> warning list \<Rightarrow> py_error + (rename_op list \<times> warning list)"
where
  "plan_cover fs folder sid ttl base km acc =
     and_then
       (locate_src fs folder [ustr ''cover.jpg'', ustr ''cover.jpeg'', ustr ''cover.png'']
          (ustr ''cover''))
       (\<lambda>cover_src. Inr
          (case cover_src of
             Some c \<Rightarrow>
               (plan_op fs Cover sid ttl c
                  (path_join folder (base @ ustr ''.cover'' @ path_suffix c)) km (fst acc),
                snd acc)
           | None \<Rightarrow> (fst acc, snd acc @ [CoverNotFound sid])))"

definition plan_attachment ::
  "fs \<Rightarrow> path \<Rightarrow> ustring \<Rightarrow> ustring \<Rightarrow> ustring \<Rightarrow> keep \<Rightarrow> ustring option \<Rightarrow>
   rename_op list \<times> warning list \<Rightarrow> rename_op list \<times> warning list"
where
  "plan_attachment fs folder sid ttl base km attach acc =
     (case attach of
        None \<Rightarrow> acc
      | Some att \<Rightarrow>
          if py_strip att = [] then acc
          else if path_exists fs (path_join folder att)
          then (plan_op fs Attachment sid ttl (path_join folder att)
                  (path_join folder (base @ path_suffix (path_join folder att))) km (fst acc),
                snd acc)
          else (fst acc, snd acc @ [AttachmentMissing sid att]))"

text \<open>The body of the loop of \<^verbatim>\<open>build_rename_ops\<close> for one piece.\<close>

definition plan_piece ::
  "fs \<Rightarrow> path \<Rightarrow> ustring \<Rightarrow> bool \<Rightarrow> keep \<Rightarrow> piece \<Rightarrow>
   rename_op list \<times> warning list \<Rightarrow> py_error + (rename_op list \<times> warning list)"
where
  "plan_piece fs pieces_dir username_clean preserve_blanks km pc acc =
     (let sid = (case p_short_id pc of None \<Rightarrow> [] | Some s \<Rightarrow> s);
          ttl = (case p_title pc of None \<Rightarrow> untitled | Some t \<Rightarrow> if t = [] then untitled else t);
          attach = p_attachment pc;
          folder = path_join pieces_dir sid;
          base = safe_filename_base (username_clean @ ustr '' - '' @ ttl) 180 preserve_blanks
      in if sid = [] then Inr (fst acc, snd acc @ [NoShortId])
         else if \<not> path_exists fs folder then Inr (fst acc, snd acc @ [FolderMissing sid folder])
         else and_then (plan_audio fs folder sid ttl base km acc) (\<lambda>acc1.
              and_then (plan_cover fs folder sid ttl base km acc1) (\<lambda>acc2.
              Inr (plan_attachment fs folder sid ttl base km attach acc2))))"

fun plan_pieces ::
  "fs \<Rightarrow> path \<Rightarrow> ustring \<Rightarrow> bool \<Rightarrow> keep \<Rightarrow> piece list \<Rightarrow>
   rename_op list \<times> warning list \<Rightarrow> py_error + (rename_op list \<times> warning list)"
where
  "plan_pieces fs pieces_dir username_clean preserve_blanks km [] acc = Inr acc"
| "plan_pieces fs pieces_dir username_clean preserve_blanks km (pc # rest) acc =
     (case plan_piece fs pieces_dir username_clean preserve_blanks km pc acc of
        Inl e \<Rightarrow> Inl e
      | Inr acc' \<Rightarrow> plan_pieces fs pieces_dir username_clean preserve_blanks km rest acc')"

text \<open>
  \<^verbatim>\<open>build_rename_ops(pieces, pieces_dir, username, preserve_blanks, keep_mode)\<close>. The
  planner only reads the filesystem \<open>fs\<close>.
\<close>

definition build_rename_ops ::
  "fs \<Rightarrow> piece list \<Rightarrow> path \<Rightarrow> ustring \<Rightarrow> bool \<Rightarrow> keep \<Rightarrow>
   py_error + (rename_op list \<times> warning list)"
where
  "build_rename_ops fs pieces pieces_dir username preserve_blanks km =
     plan_pieces fs pieces_dir (safe_filename_base username 180 preserve_blanks)
       preserve_blanks km pieces ([], [])"

section \<open>Operating system calls\<close>

text \<open>
  What the operating system decides and the program cannot see beforehand: whether a
  hard link, a symbolic link or a copy can be made, whether a file can be unlinked, and
  whether \<^verbatim>\<open>rename\<close> onto an existing file replaces it (POSIX) or raises (Windows).
\<close>

record env =
  hardlink_fails :: bool
  symlink_fails :: bool
  copy_fails :: bool
  unlink_denied :: bool
  retry_fails :: bool
  rename_replaces :: bool

text \<open>Moving the entry \<open>old\<close>, and the entries below it, to \<open>new\<close>.\<close>

definition move_entries :: "fs \<Rightarrow> path \<Rightarrow> path \<Rightarrow> fs" where
  "move_entries fs old new =
     map (\<lambda>e. (if take (length old) (fst e) = old then new @ drop (length old) (fst e) else fst e,
               snd e)) fs"

text \<open>\<^verbatim>\<open>old.rename(new)\<close>\<close>

definition os_rename :: "env \<Rightarrow> fs \<Rightarrow> path \<Rightarrow> path \<Rightarrow> py_error + fs" where
  "os_rename ev fs old new =
     (case lookup fs old of
        None \<Rightarrow> Inl (FileNotFoundError old)
      | Some n_old \<Rightarrow>
          (case lookup fs new of
             None \<Rightarrow> Inr (move_entries fs old new)
           | Some n_new \<Rightarrow>
               if old = new then Inr fs
               else if \<not> rename_replaces ev then Inl (FileExistsError new)
               else if n_new = Dir then
                 (if n_old \<noteq> Dir then Inl (IsADirectoryError new)
                  else if iterdir fs new \<noteq> [] then Inl (OSError new)
                  else Inr (move_entries (fs_remove fs new) old new))
               else if n_old = Dir then Inl (NotADirectoryError new)
               else Inr (move_entries (fs_remove fs new) old new)))"

text \<open>
  \<^verbatim>\<open>os.link(src, dst)\<close>. No modelled function changes the content of a media file, so a
  hard link is an entry with the same content.
\<close>

definition os_link :: "env \<Rightarrow> fs \<Rightarrow> path \<Rightarrow> path \<Rightarrow> py_error + fs" where
  "os_link ev fs source link_name =
     (if hardlink_fails ev then Inl (OSError link_name)
      else case lookup fs link_name of
             Some n \<Rightarrow> Inl (FileExistsError link_name)
           | None \<Rightarrow>
               (case lookup fs source of
                  None \<Rightarrow> Inl (FileNotFoundError source)
                | Some Dir \<Rightarrow> Inl (PermissionError source)
                | Some n \<Rightarrow> Inr (fs_put fs link_name n)))"

text \<open>
  \<^verbatim>\<open>os.symlink(target, link_name)\<close>. The source passes the path of the new file relative
  to the folder of the link; the model stores the path it denotes.
\<close>

definition os_symlink :: "env \<Rightarrow> fs \<Rightarrow> path \<Rightarrow> path \<Rightarrow> py_error + fs" where
  "os_symlink ev fs target link_name =
     (if symlink_fails ev then Inl (OSError link_name)
      else case lookup fs link_name of
             Some n \<Rightarrow> Inl (FileExistsError link_name)
           | None \<Rightarrow> Inr (fs_put fs link_name (Symlink target)))"

text \<open>\<^verbatim>\<open>shutil.copy2(src, dst)\<close>\<close>

definition copy2 :: "env \<Rightarrow> fs \<Rightarrow> path \<Rightarrow> path \<Rightarrow> py_error + fs" where
  "copy2 ev fs source target =
     (if copy_fails ev then Inl (OSError target)
      else case stat fs source of
             None \<Rightarrow> Inl (FileNotFoundError source)
           | Some Dir \<Rightarrow> Inl (IsADirectoryError source)
           | Some (Symlink t) \<Rightarrow> Inl (OSError source)
           | Some (File c) \<Rightarrow>
               (case resolve fs target of
                  None \<Rightarrow> Inl (OSError target)
                | Some q \<Rightarrow>
                    if lookup fs q = Some Dir then Inl (IsADirectoryError q)
                    else Inr (fs_put fs q (File c))))"

text \<open>
  The deletion of the undo engine: \<^verbatim>\<open>unlink\<close>, and after a \<^verbatim>\<open>PermissionError\<close> one retry
  behind \<^verbatim>\<open>os.chmod\<close>, which itself fails on a dangling link. Every failure is caught by
  the source and only printed, so the result is the filesystem.
\<close>

definition unlink_with_retry :: "env \<Rightarrow> fs \<Rightarrow> path \<Rightarrow> fs" where
  "unlink_with_retry ev fs p =
     (if lookup fs p = None \<or> lookup fs p = Some Dir then fs
      else if \<not> unlink_denied ev then fs_remove fs p
      else if \<not> path_exists fs p \<or> retry_fails ev then fs
      else fs_remove fs p)"

text \<open>\<^verbatim>\<open>p.mkdir(parents=True, exist_ok=True)\<close>\<close>

function mkdir_parents :: "fs \<Rightarrow> path \<Rightarrow> py_error + fs" where
  "mkdir_parents fs p =
     (case lookup fs p of
        Some n \<Rightarrow> if is_dir fs p then Inr fs else Inl (FileExistsError p)
      | None \<Rightarrow>
          (case stat fs (path_parent p) of
             Some Dir \<Rightarrow> Inr (fs_put fs p Dir)
           | Some n \<Rightarrow> Inl (NotADirectoryError p)
           | None \<Rightarrow>
               (case mkdir_parents fs (path_parent p) of
                  Inl e \<Rightarrow> Inl e
                | Inr fs' \<Rightarrow> Inr (fs_put fs' p Dir))))"
  by pat_completeness auto
termination
  by (relation "measure (\<lambda>(fs, p). length p)")
     (auto simp: lookup_def path_parent_def split: if_splits)

declare mkdir_parents.simps [simp del]

section \<open>Executor\<close>

text \<open>\<^verbatim>\<open>ensure_compat_link(old_path, new_path)\<close>\<close>

definition ensure_compat_link :: "env \<Rightarrow> fs \<Rightarrow> path \<Rightarrow> path \<Rightarrow> py_error + fs" where
  "ensure_compat_link ev fs old_path new_path =
     (if path_exists fs old_path then Inr fs
      else case os_link ev fs new_path old_path of
             Inr fs' \<Rightarrow> Inr fs'
           | Inl e \<Rightarrow>
               (case os_symlink ev fs new_path old_path of
                  Inr fs' \<Rightarrow> Inr fs'
                | Inl e' \<Rightarrow> Inl RuntimeError))"

text \<open>\<^verbatim>\<open>ensure_compat_copy(old_path, new_path)\<close>\<close>

definition ensure_compat_copy :: "env \<Rightarrow> fs \<Rightarrow> path \<Rightarrow> path \<Rightarrow> py_error + fs" where
  "ensure_compat_copy ev fs old_path new_path =
     (if path_exists fs old_path then Inr fs else copy2 ev fs new_path old_path)"

text \<open>\<^verbatim>\<open>try: f(...) except Exception: print(...)\<close>: a failure leaves the filesystem as it is.\<close>

definition or_warn :: "fs \<Rightarrow> py_error + fs \<Rightarrow> fs" where
  "or_warn fs r = (case r of Inl e \<Rightarrow> fs | Inr fs' \<Rightarrow> fs')"

text \<open>
  Attribute lookup on a \<^verbatim>\<open>RenameOp\<close>: the six fields of the dataclass and its method
  \<^verbatim>\<open>to_json\<close>; any other name the source uses raises \<^verbatim>\<open>AttributeError\<close>.
\<close>

datatype attr_val = AKind op_kind | AStr ustring | APath path | AKeep keep | AMethod

definition RenameOp_getattr :: "rename_op \<Rightarrow> string \<Rightarrow> py_error + attr_val" where
  "RenameOp_getattr ro a =
     (if a = ''kind'' then Inr (AKind (kind ro))
      else if a = ''short_id'' then Inr (AStr (short_id ro))
      else if a = ''title'' then Inr (AStr (title ro))
      else if a = ''src'' then Inr (APath (src ro))
      else if a = ''dst'' then Inr (APath (dst ro))
      else if a = ''keep_mode'' then Inr (AKeep (keep_mode ro))
      else if a = ''to_json'' then Inr AMethod
      else Inl (AttributeError a))"

text \<open>Truth value of an attribute: only the empty string is falsy.\<close>

definition truthy :: "attr_val \<Rightarrow> bool" where
  "truthy v = (case v of AStr s \<Rightarrow> s \<noteq> [] | _ \<Rightarrow> True)"

text \<open>
  \<^verbatim>\<open>log_path.open("a")\<close>: the file is created when missing; the result is the path the
  handle writes to. \<open>append_line\<close> is \<^verbatim>\<open>f.write(line); f.flush()\<close>.
\<close>

definition open_append :: "fs \<Rightarrow> path \<Rightarrow> py_error + (path \<times> fs)" where
  "open_append fs p =
     (case resolve fs p of
        None \<Rightarrow> Inl (OSError p)
      | Some q \<Rightarrow>
          (case lookup fs q of
             None \<Rightarrow> Inr (q, fs_put fs q (File []))
           | Some (File c) \<Rightarrow> Inr (q, fs)
           | Some Dir \<Rightarrow> Inl (IsADirectoryError q)
           | Some (Symlink t) \<Rightarrow> Inl (OSError q)))"

definition append_line :: "fs \<Rightarrow> path \<Rightarrow> line \<Rightarrow> fs" where
  "append_line fs q l =
     (case lookup fs q of Some (File c) \<Rightarrow> fs_put fs q (File (c @ [l])) | _ \<Rightarrow> fs)"

text \<open>
  The steps of the loop of \<^verbatim>\<open>apply_rename_ops\<close> that follow a rename. \<open>keep_step\<close> is
  the \<^verbatim>\<open>if\<close>/\<^verbatim>\<open>elif\<close> on \<^verbatim>\<open>op.keep_mode\<close>. \<open>journal_step\<close> is the rest of the body, with
  the journal open at \<open>j\<close>: the block under \<^verbatim>\<open>if op.keep_link:\<close>, then the write of the
  record and the flush.
\<close>

definition keep_step :: "env \<Rightarrow> rename_op \<Rightarrow> fs \<Rightarrow> fs" where
  "keep_step ev ro fs =
     (case keep_mode ro of
        KeepLink \<Rightarrow> or_warn fs (ensure_compat_link ev fs (src ro) (dst ro))
      | KeepCopy \<Rightarrow> or_warn fs (ensure_compat_copy ev fs (src ro) (dst ro))
      | KeepNone \<Rightarrow> fs)"

definition journal_step :: "env \<Rightarrow> path \<Rightarrow> rename_op \<Rightarrow> fs \<Rightarrow> py_error + fs" where
  "journal_step ev j ro fs =
     and_then (RenameOp_getattr ro ''keep_link'')
       (\<lambda>v. Inr (append_line
                   (if truthy v then or_warn fs (ensure_compat_link ev fs (src ro) (dst ro))
                    else fs)
                   j (Rec ro)))"

text \<open>
  The loop of \<^verbatim>\<open>apply_rename_ops\<close> in apply mode. The result is the exception that ended
  the loop, if any, and the filesystem it left.
\<close>

fun apply_loop :: "env \<Rightarrow> path \<Rightarrow> rename_op list \<Rightarrow> fs \<Rightarrow> py_error option \<times> fs" where
  "apply_loop ev j [] fs = (None, fs)"
| "apply_loop ev j (ro # rest) fs =
     (if path_exists fs (dst ro) then apply_loop ev j rest fs
      else (case os_rename ev fs (src ro) (dst ro) of
              Inl e \<Rightarrow> (Some e, fs)
            | Inr fs1 \<Rightarrow>
                (case journal_step ev j ro (keep_step ev ro fs1) of
                   Inl e \<Rightarrow> (Some e, keep_step ev ro fs1)
                 | Inr fs4 \<Rightarrow> apply_loop ev j rest fs4)))"

text \<open>\<^verbatim>\<open>apply_rename_ops(ops, log_path, dry_run)\<close>; console output is not modelled.\<close>

definition apply_rename_ops ::
  "env \<Rightarrow> rename_op list \<Rightarrow> path \<Rightarrow> bool \<Rightarrow> fs \<Rightarrow> py_error option \<times> fs"
where
  "apply_rename_ops ev ops log_path dry_run fs =
     (case mkdir_parents fs (path_parent log_path) of
        Inl e \<Rightarrow> (Some e, fs)
      | Inr fs1 \<Rightarrow>
          (if ops = [] then (None, fs1)
           else if dry_run then (None, fs1)
           else (case open_append fs1 log_path of
                   Inl e \<Rightarrow> (Some e, fs1)
                 | Inr jf \<Rightarrow> apply_loop ev (fst jf) ops (snd jf))))"

section \<open>Undo engine\<close>

text \<open>The records of a journal; a line that is no record is skipped.\<close>

fun read_entries :: "line list \<Rightarrow> rename_op list" where
  "read_entries [] = []"
| "read_entries (Rec r # ls) = r # read_entries ls"
| "read_entries (Raw b # ls) = read_entries ls"

fun undo_loop :: "env \<Rightarrow> bool \<Rightarrow> rename_op list \<Rightarrow> fs \<Rightarrow> fs" where
  "undo_loop ev dry_run [] fs = fs"
| "undo_loop ev dry_run (e # rest) fs =
     (let s = src e; d = dst e
      in if \<not> path_exists fs d then undo_loop ev dry_run rest fs
         else
      let fs1 = (if path_exists fs s \<or> is_symlink fs s
                 then (if is_dir fs s then fs
                       else if \<not> dry_run then unlink_with_retry ev fs s else fs)
                 else fs);
          fs2 = (if \<not> dry_run then or_warn fs1 (os_rename ev fs1 d s) else fs1)
      in undo_loop ev dry_run rest fs2)"

text \<open>\<^verbatim>\<open>undo_rename_from_log(log_path, dry_run)\<close>\<close>

definition undo_rename_from_log :: "env \<Rightarrow> path \<Rightarrow> bool \<Rightarrow> fs \<Rightarrow> py_error option \<times> fs" where
  "undo_rename_from_log ev log_path dry_run fs =
     (if \<not> path_exists fs log_path then (None, fs)
      else case stat fs log_path of
             Some (File ls) \<Rightarrow>
               (let entries = read_entries ls
                in if entries = [] then (None, fs)
                   else (None, undo_loop ev dry_run (rev entries) fs))
           | _ \<Rightarrow> (Some (IsADirectoryError log_path), fs))"

section \<open>Command line\<close>

text \<open>
  The manifest as \<^verbatim>\<open>load_alltihop_json\<close> returns it, with the keys \<^verbatim>\<open>main\<close> reads;
  \<open>m_pieces\<close> is \<open>None\<close> when the key \<^verbatim>\<open>pieces\<close> is missing or is not a list.
\<close>

record manifest =
  m_username :: "ustring option"
  m_display_name :: "ustring option"
  m_pieces :: "piece list option"

text \<open>What the user passed to the subcommand \<^verbatim>\<open>rename\<close>.\<close>

record cli =
  c_root :: path
  c_meta :: "path option"
  c_pieces_dir :: "path option"
  c_username :: "ustring option"
  c_preserve_blanks :: bool
  c_log :: "path option"
  c_apply :: bool
  c_dry_run :: bool
  c_keep_link :: bool
  c_keep_copy :: bool
  c_undo :: bool

text \<open>
  The \<^verbatim>\<open>argparse.Namespace\<close> that the parser of \<^verbatim>\<open>build_cli\<close> returns for the subcommand
  \<^verbatim>\<open>rename\<close>: one attribute for each argument the parser declares, under the name
  argparse derives from the option.
\<close>

datatype arg_val = ABool bool | APathOpt "path option" | AStrOpt "ustring option" | ACmd string

type_synonym namespace = "(string \<times> arg_val) list"

definition parse_args :: "cli \<Rightarrow> namespace" where
  "parse_args c =
     [(''root'', APathOpt (Some (c_root c))),
      (''meta'', APathOpt (c_meta c)),
      (''pieces_dir'', APathOpt (c_pieces_dir c)),
      (''username'', AStrOpt (c_username c)),
      (''preserve_blanks'', ABool (c_preserve_blanks c)),
      (''cmd'', ACmd ''rename''),
      (''log'', APathOpt (c_log c)),
      (''apply'', ABool (c_apply c)),
      (''dry_run'', ABool (c_dry_run c)),
      (''keep_link'', ABool (c_keep_link c)),
      (''keep_copy'', ABool (c_keep_copy c)),
      (''undo'', ABool (c_undo c))]"

definition getattr :: "namespace \<Rightarrow> string \<Rightarrow> py_error + arg_val" where
  "getattr ns a = (case map_of ns a of None \<Rightarrow> Inl (AttributeError a) | Some v \<Rightarrow> Inr v)"

text \<open>The values of an argument as \<^verbatim>\<open>main\<close> uses them.\<close>

definition arg_true :: "arg_val \<Rightarrow> bool" where
  "arg_true v =
     (case v of ABool b \<Rightarrow> b | APathOpt p \<Rightarrow> p \<noteq> None
      | AStrOpt s \<Rightarrow> s \<noteq> None \<and> s \<noteq> Some [] | ACmd s \<Rightarrow> s \<noteq> [])"

definition arg_path_or :: "arg_val \<Rightarrow> path \<Rightarrow> path" where
  "arg_path_or v d = (case v of APathOpt (Some p) \<Rightarrow> p | _ \<Rightarrow> d)"

definition arg_str_or :: "arg_val \<Rightarrow> ustring \<Rightarrow> ustring" where
  "arg_str_or v d = (case v of AStrOpt (Some s) \<Rightarrow> if s = [] then d else s | _ \<Rightarrow> d)"

text \<open>
  The value passed as \<^verbatim>\<open>keep_mode\<close>: the executor compares it with \<^verbatim>\<open>"link"\<close> and
  \<^verbatim>\<open>"copy"\<close> and treats anything else as no compatibility artifact.
\<close>

definition arg_keep :: "arg_val \<Rightarrow> keep" where
  "arg_keep v =
     (case v of
        AStrOpt (Some s) \<Rightarrow>
          if s = ustr ''link'' then KeepLink else if s = ustr ''copy'' then KeepCopy else KeepNone
      | _ \<Rightarrow> KeepNone)"

text \<open>How a run of \<^verbatim>\<open>main\<close> ends: with an exit code or with an uncaught exception.\<close>

datatype outcome = Returned int | Raised py_error

definition finish :: "fs \<Rightarrow> py_error + (outcome \<times> fs) \<Rightarrow> outcome \<times> fs" where
  "finish fs r = (case r of Inl e \<Rightarrow> (Raised e, fs) | Inr x \<Rightarrow> x)"

text \<open>
  \<^verbatim>\<open>main\<close> for the subcommand \<^verbatim>\<open>rename\<close>. \<open>load\<close> is \<^verbatim>\<open>load_alltihop_json\<close>: the manifest
  read at a path, or the exception of the read. \<^verbatim>\<open>resolve()\<close> is the identity on the
  absolute paths of the model. The filesystem changes only in the calls of the undo
  engine and of the executor, so every exception raised outside them leaves \<open>fs\<close>.
\<close>

definition main_rename ::
  "env \<Rightarrow> (path \<Rightarrow> py_error + manifest) \<Rightarrow> cli \<Rightarrow> fs \<Rightarrow> outcome \<times> fs"
where
  "main_rename ev load c fs =
     (let args = parse_args c in finish fs (
      and_then (getattr args ''root'') (\<lambda>root_v.
      let root = arg_path_or root_v [] in
      and_then (getattr args ''meta'') (\<lambda>meta_v.
      let meta_path = arg_path_or meta_v (root @ [ustr ''dump'', ustr ''alltihop.json'']) in
      and_then (getattr args ''pieces_dir'') (\<lambda>pd_v.
      let pieces_dir = arg_path_or pd_v (root @ [ustr ''dump'', ustr ''assets'', ustr ''pieces'']) in
      if \<not> path_exists fs meta_path then Inr (Returned 2, fs)
      else if \<not> path_exists fs pieces_dir then Inr (Returned 2, fs)
      else
      and_then (load meta_path) (\<lambda>data.
      let default_username =
            (case m_username data of
               Some u \<Rightarrow> if u \<noteq> [] then u
                         else arg_str_or (AStrOpt (m_display_name data)) (ustr ''unknown'')
             | None \<Rightarrow> arg_str_or (AStrOpt (m_display_name data)) (ustr ''unknown'')) in
      and_then (getattr args ''username'') (\<lambda>un_v.
      let username = arg_str_or un_v default_username in
      and_then (getattr args ''cmd'') (\<lambda>cmd_v.
      and_then (getattr args ''log'') (\<lambda>log_v.
      let log_path = arg_path_or log_v (root @ [ustr ''rename_log.jsonl'']) in
      and_then (getattr args ''dry_run'') (\<lambda>dr_v.
      and_then (if arg_true dr_v then Inr True
                else and_then (getattr args ''apply'') (\<lambda>ap_v.
                     if arg_true ap_v
                     then Inr False
                     else and_then (getattr args ''undo'') (\<lambda>u_v. Inr (\<not> arg_true u_v))))
        (\<lambda>dry_run.
      and_then (getattr args ''undo'') (\<lambda>undo_v.
      if arg_true undo_v
      then (case undo_rename_from_log ev log_path dry_run fs of
              (Some e, fs') \<Rightarrow> Inr (Raised e, fs')
            | (None, fs') \<Rightarrow> Inr (Returned 0, fs'))
      else
      case m_pieces data of
        None \<Rightarrow> Inr (Returned 2, fs)
      | Some pieces \<Rightarrow>
      and_then (getattr args ''keep_link'') (\<lambda>kl_v.
      and_then (if arg_true kl_v then Inr KeepLink
                else and_then (getattr args ''keep_copy'') (\<lambda>kc_v.
                     Inr (if arg_true kc_v then KeepCopy else KeepNone)))
        (\<lambda>keep_mode_local.
      and_then (getattr args ''preserve_blanks'') (\<lambda>pb_v.
      and_then (getattr args ''keep_mode'') (\<lambda>km_v.
      and_then (build_rename_ops fs pieces pieces_dir username (arg_true pb_v) (arg_keep km_v))
        (\<lambda>planned.
      case apply_rename_ops ev (fst planned) log_path dry_run fs of
        (Some e, fs') \<Rightarrow> Inr (Raised e, fs')
      | (None, fs') \<Rightarrow> Inr (Returned 0, fs'))))))))))))))))))"

section \<open>Properties of the comment helper\<close>

lemma py_strip_Nil: "py_strip [] = []"
  by (simp add: py_strip_def py_lstrip_def py_rstrip_def)

lemma collect_cols_filter:
  "collect_cols cf un cs cols seen =
     cols @ dedup_by cf
       (filter (\<lambda>c. c \<noteq> [] \<and> \<not> (un \<noteq> [] \<and> cf c = un) \<and> cf c \<notin> seen) (map py_strip cs))"
proof (induction cs arbitrary: cols seen)
  case Nil
  show ?case by simp
next
  case (Cons c rest)
  let ?x = "py_strip c"
  let ?Q = "\<lambda>S c. c \<noteq> [] \<and> \<not> (un \<noteq> [] \<and> cf c = un) \<and> cf c \<notin> S"
  show ?case
  proof (cases "c \<noteq> [] \<and> ?Q seen ?x")
    case False
    then show ?thesis
      using Cons.IH [of cols seen] by (auto simp: Let_def py_strip_Nil)
  next
    case True
    have eq: "filter (\<lambda>y. cf y \<noteq> cf ?x) (filter (?Q seen) (map py_strip rest))
              = filter (?Q (insert (cf ?x) seen)) (map py_strip rest)"
      unfolding filter_filter by (rule filter_cong) auto
    have step: "collect_cols cf un (c # rest) cols seen =
            collect_cols cf un rest (cols @ [?x]) (insert (cf ?x) seen)"
      using True by (auto simp: Let_def)
    have "filter (?Q seen) (map py_strip (c # rest)) = ?x # filter (?Q seen) (map py_strip rest)"
      using True by simp
    then have "dedup_by cf (filter (?Q seen) (map py_strip (c # rest))) =
        ?x # dedup_by cf (filter (?Q (insert (cf ?x) seen)) (map py_strip rest))"
      by (simp only: dedup_by.simps eq)
    then show ?thesis
      by (simp only: step Cons.IH append_assoc append_Cons append_Nil)
  qed
qed

lemma collect_cols_spec:
  "collect_cols cf (cf (py_strip u)) cs [] {} = spec_remaining_names cf cs u"
  unfolding spec_remaining_names_def collect_cols_filter filter_filter
  by (simp add: conj_commute)

text \<open>
  C10: the loop of \<open>build_comment\<close> computes the remaining collaborator names as the
  specification words them (\<open>spec_remaining_names\<close>). When no name remains the result
  is exactly the right-stripped description. When names remain, the result is the block
  \<^verbatim>\<open>Collaborators:\<close> with one name per line, alone when the right-stripped description
  is empty, and otherwise after the right-stripped description and one blank line (two
  line feeds).
\<close>

theorem build_comment_shape:
  "build_comment cf description collaborators username =
     (let desc = py_rstrip (case description of None \<Rightarrow> [] | Some d \<Rightarrow> d);
          names = spec_remaining_names cf (case collaborators of None \<Rightarrow> [] | Some cs \<Rightarrow> cs)
                    (case username of None \<Rightarrow> [] | Some u \<Rightarrow> u)
      in if names = [] then desc
         else if desc = [] then ustr ''Collaborators:'' @ [10] @ py_join [10] names
         else desc @ [10, 10] @ ustr ''Collaborators:'' @ [10] @ py_join [10] names)"
  by (simp add: build_comment_def collect_cols_spec Let_def collab_tail_def)

end
